theory Spec2Isabelle
  imports Complex_Main "HOL-Library.AList"
begin

section \<open>Conventions\<close>

text \<open>
  The engine is Python. Its \<^verbatim>\<open>float\<close> amounts (cash, prices, brokerage, margin) are
  modelled as \<^typ>\<open>real\<close>: a float is the real number it denotes, and infinities and
  NaN are outside the model. The ledger and the risk check are stated in exact arithmetic,
  the rounding of IEEE doubles being left out there. The broker's fill price is the one
  place where the code rounds to cents, and a cent depends on the double that the float
  operations produce: there each operation is followed by the binary64 rounding \<open>fl\<close>
  defined below. Python \<^verbatim>\<open>int\<close>
  quantities are \<^typ>\<open>int\<close>, \<^verbatim>\<open>str\<close> is \<^typ>\<open>string\<close>, a \<^verbatim>\<open>dict\<close> is a map (or an
  association list where the iteration order is observed). Calls to the clock, to
  \<^verbatim>\<open>uuid\<close> and to \<^verbatim>\<open>random\<close> are parameters of the function that makes them. Logging
  is not modelled.
\<close>

section \<open>\<^verbatim>\<open>engine/portfolio.py\<close>: PortfolioManager\<close>

text \<open>
  \<^verbatim>\<open>FillEvent\<close> is declared in \<^verbatim>\<open>engine/event_engine.py\<close>; the fields are the ones
  \<^verbatim>\<open>on_fill_event\<close> reads and \<^verbatim>\<open>TradeExecutor.on_order_event\<close> passes to the constructor.
\<close>

record FillEvent =
  order_id :: string
  instrument_token :: string
  exchange_order_id :: string
  transaction_type :: string
  quantity :: int
  price :: real
  brokerage :: real
  fill_timestamp :: real

text \<open>An entry of \<^verbatim>\<open>self.positions\<close>: the dict literal of lines 132-137.\<close>

record position =
  pos_instrument_token :: string
  pos_quantity :: int
  avg_price :: real
  last_known_price :: real

text \<open>The dict appended to \<^verbatim>\<open>self.portfolio_trades\<close> (lines 175-185).\<close>

record trade_record =
  tr_timestamp :: real
  tr_instrument_token :: string
  tr_order_id :: string
  tr_exchange_order_id :: string
  tr_transaction_type :: string
  tr_quantity :: int
  tr_price :: real
  tr_brokerage :: real
  current_cash_after_trade :: real

text \<open>
  The dict appended to \<^verbatim>\<open>self.equity_curve\<close> (lines 203-209). The source stores the
  positions as the JSON text of \<^verbatim>\<open>{k: v['quantity']}\<close>; the model keeps that map itself.
\<close>

record equity_snapshot =
  es_timestamp :: real
  es_cash :: real
  es_positions :: "string \<rightharpoonup> int"
  total_value :: real

record PortfolioManager =
  initial_cash :: real
  current_cash :: real
  positions :: "string \<rightharpoonup> position"
  equity_curve :: "equity_snapshot list"
  portfolio_trades :: "trade_record list"

text \<open>Lines 121-128: the cash update.\<close>

definition update_cash :: "FillEvent \<Rightarrow> real \<Rightarrow> real" where
  "update_cash ev cash =
     (if transaction_type ev = ''BUY'' then
        (let cost = (of_int (quantity ev) * price ev) + brokerage ev in cash - cost)
      else if transaction_type ev = ''SELL'' then
        (let revenue = (of_int (quantity ev) * price ev) - brokerage ev in cash + revenue)
      else cash)"

text \<open>Lines 131-139: the entry created for an instrument that has none.\<close>

definition fresh_position :: "FillEvent \<Rightarrow> position" where
  "fresh_position ev =
     \<lparr>pos_instrument_token = instrument_token ev, pos_quantity = 0, avg_price = 0,
      last_known_price = price ev\<rparr>"

definition current_position :: "FillEvent \<Rightarrow> (string \<rightharpoonup> position) \<Rightarrow> position" where
  "current_position ev ps =
     (case ps (instrument_token ev) of None \<Rightarrow> fresh_position ev | Some p \<Rightarrow> p)"

text \<open>Lines 141-149: the BUY branch.\<close>

definition apply_buy :: "FillEvent \<Rightarrow> position \<Rightarrow> position" where
  "apply_buy ev current_pos =
     (let old_total_value = of_int (pos_quantity current_pos) * avg_price current_pos;
          new_quantity = pos_quantity current_pos + quantity ev
      in current_pos
           \<lparr>avg_price :=
              (if new_quantity = 0 then 0
               else (old_total_value + (of_int (quantity ev) * price ev)) / of_int new_quantity),
            pos_quantity := new_quantity\<rparr>)"

text \<open>Lines 151-167: the SELL branch.\<close>

definition apply_sell :: "FillEvent \<Rightarrow> position \<Rightarrow> position" where
  "apply_sell ev current_pos =
     (let new_quantity = pos_quantity current_pos - quantity ev
      in current_pos
           \<lparr>avg_price :=
              (if new_quantity = 0 then 0
               else if (pos_quantity current_pos > 0 \<and> new_quantity < 0) \<or>
                       (pos_quantity current_pos < 0 \<and> new_quantity > 0)
               then price ev
               else avg_price current_pos),
            pos_quantity := new_quantity\<rparr>)"

text \<open>
  Lines 130-172: create the entry when missing, update it, delete it when its quantity
  is zero. The source mutates the dict entry in place; the model writes the updated entry
  back under the same key.
\<close>

definition update_positions :: "FillEvent \<Rightarrow> (string \<rightharpoonup> position) \<Rightarrow> (string \<rightharpoonup> position)" where
  "update_positions ev ps =
     (let current_pos = current_position ev ps;
          updated =
            (if transaction_type ev = ''BUY'' then apply_buy ev current_pos
             else if transaction_type ev = ''SELL'' then apply_sell ev current_pos
             else current_pos)
      in if pos_quantity updated = 0 then ps(instrument_token ev := None)
         else ps(instrument_token ev \<mapsto> updated))"

definition make_trade_record :: "FillEvent \<Rightarrow> real \<Rightarrow> trade_record" where
  "make_trade_record ev cash =
     \<lparr>tr_timestamp = fill_timestamp ev,
      tr_instrument_token = instrument_token ev,
      tr_order_id = order_id ev,
      tr_exchange_order_id = exchange_order_id ev,
      tr_transaction_type = transaction_type ev,
      tr_quantity = quantity ev,
      tr_price = price ev,
      tr_brokerage = brokerage ev,
      current_cash_after_trade = cash\<rparr>"

text \<open>Lines 193-209: \<^verbatim>\<open>_record_equity_snapshot\<close>; the total value is the cash alone.\<close>

definition record_equity_snapshot :: "real \<Rightarrow> real \<Rightarrow> PortfolioManager \<Rightarrow> PortfolioManager" where
  "record_equity_snapshot cash timestamp pm =
     pm\<lparr>equity_curve := equity_curve pm @
          [\<lparr>es_timestamp = timestamp, es_cash = cash,
            es_positions = map_option pos_quantity \<circ> positions pm,
            total_value = cash\<rparr>]\<rparr>"

text \<open>
  Lines 108-191: \<^verbatim>\<open>on_fill_event\<close>. \<^verbatim>\<open>_save_positions\<close> writes a file and catches its
  own exceptions; it changes no field of the manager and is left out. The fill timestamp
  (seconds) is stored as the number it is; the source wraps it in a \<^verbatim>\<open>datetime\<close> of the
  same instant.
\<close>

definition on_fill_event :: "FillEvent \<Rightarrow> PortfolioManager \<Rightarrow> PortfolioManager" where
  "on_fill_event ev pm =
     (let pm1 = pm\<lparr>current_cash := update_cash ev (current_cash pm)\<rparr>;
          pm2 = pm1\<lparr>positions := update_positions ev (positions pm1)\<rparr>;
          pm3 = pm2\<lparr>portfolio_trades := portfolio_trades pm2 @
                   [make_trade_record ev (current_cash pm2)]\<rparr>
      in record_equity_snapshot (current_cash pm3) (fill_timestamp ev) pm3)"

text \<open>A sequence of fills, applied in order.\<close>

definition process_fills :: "FillEvent list \<Rightarrow> PortfolioManager \<Rightarrow> PortfolioManager" where
  "process_fills fills pm = foldl (\<lambda>s ev. on_fill_event ev s) pm fills"

text \<open>The quantity the ledger holds for an instrument: 0 when it has no entry.\<close>

definition held_quantity :: "PortfolioManager \<Rightarrow> string \<Rightarrow> int" where
  "held_quantity pm tok = (case positions pm tok of None \<Rightarrow> 0 | Some p \<Rightarrow> pos_quantity p)"

text \<open>The signed quantity of a fill: BUY positive, SELL negative.\<close>

definition signed_quantity :: "FillEvent \<Rightarrow> int" where
  "signed_quantity ev =
     (if transaction_type ev = ''BUY'' then quantity ev
      else if transaction_type ev = ''SELL'' then - quantity ev
      else 0)"

definition signed_sum :: "FillEvent list \<Rightarrow> int" where
  "signed_sum fills = sum_list (map signed_quantity fills)"

text \<open>The ledger keeps no entry whose quantity is zero.\<close>

definition no_zero_entry :: "(string \<rightharpoonup> position) \<Rightarrow> bool" where
  "no_zero_entry ps = (\<forall>tok p. ps tok = Some p \<longrightarrow> pos_quantity p \<noteq> 0)"

text \<open>Example values: a ledger with no position and 100000 of cash, and a fill.\<close>

definition ledger0 :: PortfolioManager where
  "ledger0 = \<lparr>initial_cash = 100000, current_cash = 100000, positions = Map.empty,
              equity_curve = [], portfolio_trades = []\<rparr>"

definition fill :: "string \<Rightarrow> string \<Rightarrow> int \<Rightarrow> real \<Rightarrow> real \<Rightarrow> FillEvent" where
  "fill tok side q p b =
     \<lparr>order_id = ''o'', instrument_token = tok, exchange_order_id = ''x'',
      transaction_type = side, quantity = q, price = p, brokerage = b, fill_timestamp = 0\<rparr>"

section \<open>Python exceptions and string helpers\<close>

text \<open>
  The classes derived from \<^verbatim>\<open>Exception\<close> that the modelled code raises or catches: an
  \<^verbatim>\<open>except Exception\<close> clause catches every value of this type.
\<close>

datatype exn =
    Exception string
  | NameError string
  | UnboundLocalError string
  | RuntimeError string

text \<open>
  What an awaited call can raise is a \<^verbatim>\<open>BaseException\<close>: an \<^verbatim>\<open>Exception\<close>, or one of
  the classes that derive from \<^verbatim>\<open>BaseException\<close> directly. \<^verbatim>\<open>asyncio.CancelledError\<close>
  is raised inside an awaited call when the task is cancelled. An \<^verbatim>\<open>except Exception\<close>
  clause does not catch the last four.
\<close>

datatype raised =
    Exc exn
  | CancelledError
  | KeyboardInterrupt
  | SystemExit
  | GeneratorExit

text \<open>
  \<^verbatim>\<open>str.lower\<close> and \<^verbatim>\<open>str.upper\<close> on the ASCII letters; any other character is kept.
\<close>

definition lower_char :: "char \<Rightarrow> char" where
  "lower_char c =
     (let n = (of_char c :: nat) in if 65 \<le> n \<and> n \<le> 90 then char_of (n + 32) else c)"

definition upper_char :: "char \<Rightarrow> char" where
  "upper_char c =
     (let n = (of_char c :: nat) in if 97 \<le> n \<and> n \<le> 122 then char_of (n - 32) else c)"

definition lower :: "string \<Rightarrow> string" where
  "lower s = map lower_char s"

definition upper :: "string \<Rightarrow> string" where
  "upper s = map upper_char s"

section \<open>\<^verbatim>\<open>engine/risk_manager.py\<close>: RiskManager\<close>

text \<open>The \<^verbatim>\<open>instrument_dict\<close> built at lines 41-47.\<close>

record instrument_dict =
  exchange_token :: string
  id_quantity :: int
  id_product :: string
  id_transaction_type :: string
  id_price :: real

text \<open>
  The three queries of the abstract \<^verbatim>\<open>BaseBroker\<close> that \<^verbatim>\<open>validate_order\<close> awaits
  (engine/broker.py, lines 85-97). Each returns a number or raises.
\<close>

record broker_queries =
  calculate_margin :: "instrument_dict \<Rightarrow> raised + real"
  calculate_brokerage :: "instrument_dict \<Rightarrow> raised + real"
  get_funds_and_margin :: "raised + real"

text \<open>
  Lines 49-73: the body of the \<^verbatim>\<open>try\<close>. The queries are awaited in the order margin,
  brokerage, funds; the first one that raises ends the body.
\<close>

definition validate_order_body ::
  "broker_queries \<Rightarrow> instrument_dict \<Rightarrow> string \<Rightarrow> raised + (bool \<times> real \<times> real)" where
  "validate_order_body broker idict trade_type =
     (case calculate_margin broker idict of
        Inl e \<Rightarrow> Inl e
      | Inr margin_required \<Rightarrow>
          (case calculate_brokerage broker idict of
             Inl e \<Rightarrow> Inl e
           | Inr brokerage_required \<Rightarrow>
               (case get_funds_and_margin broker of
                  Inl e \<Rightarrow> Inl e
                | Inr available_margin \<Rightarrow>
                    if lower trade_type = ''entry'' then
                      (let total_cost = margin_required + brokerage_required
                       in if available_margin \<ge> total_cost
                          then Inr (True, margin_required, brokerage_required)
                          else Inr (False, margin_required, brokerage_required))
                    else if lower trade_type = ''exit'' then
                      (if available_margin \<ge> brokerage_required
                       then Inr (True, margin_required, brokerage_required)
                       else Inr (False, margin_required, brokerage_required))
                    else Inr (False, 0, 0))))"

text \<open>
  Lines 19-78: \<^verbatim>\<open>validate_order\<close>. The \<^verbatim>\<open>except Exception\<close> clause of line 75 turns
  an \<^verbatim>\<open>Exception\<close> of the body into the result \<^verbatim>\<open>(False, 0.0, 0.0)\<close>; anything else
  that the body raises leaves the call, which is a result \<open>Inl\<close>.
\<close>

definition validate_order ::
  "broker_queries \<Rightarrow> string \<Rightarrow> int \<Rightarrow> string \<Rightarrow> string \<Rightarrow> string \<Rightarrow> real \<Rightarrow>
     raised + (bool \<times> real \<times> real)" where
  "validate_order broker token qty product side trade_type px =
     (let idict = \<lparr>exchange_token = token, id_quantity = qty, id_product = product,
                   id_transaction_type = side, id_price = px\<rparr>
      in case validate_order_body broker idict trade_type of
           Inl (Exc e) \<Rightarrow> Inr (False, 0, 0)
         | Inl x \<Rightarrow> Inl x
         | Inr r \<Rightarrow> Inr r)"

section \<open>\<^verbatim>\<open>engine/broker.py\<close>: SimulatedBroker\<close>

text \<open>The \<^verbatim>\<open>order_details\<close> dict of lines 162-180.\<close>

record order_details =
  od_order_id :: string
  od_instrument_token :: string
  od_transaction_type :: string
  od_quantity :: int
  od_product :: string
  od_validity :: string
  od_order_type :: string
  od_price :: real
  od_trigger_price :: real
  od_disclosed_quantity :: int
  od_is_amo :: bool
  od_tag :: string
  od_status :: string
  od_timestamp :: real
  od_exchange_order_id :: "string option"
  od_filled_quantity :: int
  od_filled_price :: real

text \<open>
  The broker. Its \<^verbatim>\<open>trades\<close> list holds the \<^verbatim>\<open>fill_event\<close> dicts of lines 207-216 and
  229-238, whose keys are the fields of \<^typ>\<open>FillEvent\<close>.
\<close>

record SimulatedBroker =
  orders :: "string \<rightharpoonup> order_details"
  trades :: "FillEvent list"
  slippage_percent :: real
  fill_chance :: real
  initial_funds :: real
  current_funds :: real

text \<open>The arguments of \<^verbatim>\<open>place_order\<close> (lines 144-155).\<close>

record order_request =
  rq_instrument_token :: string
  rq_transaction_type :: string
  rq_quantity :: int
  rq_product :: string
  rq_validity :: string
  rq_order_type :: string
  rq_price :: real
  rq_trigger_price :: real
  rq_disclosed_quantity :: int
  rq_is_amo :: bool
  rq_tag :: string

text \<open>
  What one call of \<^verbatim>\<open>place_order\<close> reads from outside: the two \<^verbatim>\<open>uuid4\<close> values, the
  two clock readings, \<^verbatim>\<open>random.random()\<close> and \<^verbatim>\<open>random.uniform(99, 101)\<close>.
\<close>

record draws =
  new_order_id :: string
  placed_at :: real
  random_draw :: real
  uniform_draw :: real
  new_exchange_order_id :: string
  filled_at :: real

text \<open>Rounding to the nearest integer, a tie going to the even one.\<close>

definition round_half_even :: "real \<Rightarrow> int" where
  "round_half_even x =
     (let f = \<lfloor>x\<rfloor>; d = x - of_int f
      in if d < 1 / 2 then f
         else if d > 1 / 2 then f + 1
         else if even f then f else f + 1)"

text \<open>The nearest multiple of 0.01, a tie going to the even one.\<close>

definition round2 :: "real \<Rightarrow> real" where
  "round2 x = of_int (round_half_even (x * 100)) / 100"

text \<open>
  Binary64. For \<open>1 \<le> x\<close>, \<open>halvings\<close> counts the halvings that bring \<open>x\<close> below 2, and
  for \<open>0 < x < 1\<close>, \<open>doublings\<close> counts (negatively) the doublings that bring it to 1 or
  above, stopping at the exponent -1022 of the subnormal numbers: \<open>binade x\<close> is the
  exponent of the power of two at or below \<open>\<bar>x\<bar>\<close>. The doubles around \<open>x\<close> are the
  multiples of \<open>ulp x\<close> (53 significant bits), and \<open>fl x\<close> is the nearest of them, a tie
  going to the even multiple: the result of a float operation whose exact result is
  \<open>x\<close>. Results beyond the largest double, which IEEE turns into infinities, are outside
  the model.
\<close>

fun halvings :: "nat \<Rightarrow> real \<Rightarrow> int" where
  "halvings 0 x = 0"
| "halvings (Suc n) x = (if x < 2 then 0 else 1 + halvings n (x / 2))"

fun doublings :: "nat \<Rightarrow> real \<Rightarrow> int" where
  "doublings 0 x = 0"
| "doublings (Suc n) x = (if 1 \<le> x then 0 else doublings n (x * 2) - 1)"

definition binade :: "real \<Rightarrow> int" where
  "binade x = (if 1 \<le> \<bar>x\<bar> then halvings 1024 \<bar>x\<bar> else doublings 1022 \<bar>x\<bar>)"

definition ulp :: "real \<Rightarrow> real" where
  "ulp x = (let e = binade x - 52 in if 0 \<le> e then 2 ^ nat e else 1 / 2 ^ nat (- e))"

definition fl :: "real \<Rightarrow> real" where
  "fl x = (if x = 0 then 0 else of_int (round_half_even (x / ulp x)) * ulp x)"

text \<open>The float operations of line 189 to 193: the exact result, rounded to a double.\<close>

definition float_div :: "real \<Rightarrow> real \<Rightarrow> real" where
  "float_div x y = fl (x / y)"

definition float_mul :: "real \<Rightarrow> real \<Rightarrow> real" where
  "float_mul x y = fl (x * y)"

definition float_add :: "real \<Rightarrow> real \<Rightarrow> real" where
  "float_add x y = fl (x + y)"

definition float_sub :: "real \<Rightarrow> real \<Rightarrow> real" where
  "float_sub x y = fl (x - y)"

text \<open>
  \<^verbatim>\<open>round(x, 2)\<close> on a float: the decimal with two places nearest to the exact value of
  \<open>x\<close> (a tie going to the even one), and then the double nearest to that decimal.
\<close>

definition py_round2 :: "real \<Rightarrow> real" where
  "py_round2 x = fl (round2 x)"

text \<open>Lines 323-325: the simulated brokerage is a flat fee.\<close>

definition sim_calculate_brokerage :: real where
  "sim_calculate_brokerage = 20"

text \<open>
  Line 186: the price before slippage. \<^verbatim>\<open>order_details["price"]\<close> is the argument
  \<^verbatim>\<open>price\<close>, stored at line 170.
\<close>

definition base_fill_price :: "draws \<Rightarrow> order_request \<Rightarrow> real" where
  "base_fill_price d rq =
     (if rq_price rq > 0 then rq_price rq
      else (if rq_price rq > 0 then uniform_draw d / 100 * rq_price rq else 100))"

text \<open>
  Lines 188-194: slippage, added for BUY and subtracted otherwise, then rounding. The
  three operations and the rounding are those of Python floats.
\<close>

definition slipped_fill_price :: "draws \<Rightarrow> order_request \<Rightarrow> SimulatedBroker \<Rightarrow> real" where
  "slipped_fill_price d rq b =
     (let fill_price = base_fill_price d rq;
          slippage_amount = float_mul fill_price (float_div (slippage_percent b) 100)
      in py_round2 (if upper (rq_transaction_type rq) = ''BUY''
                    then float_add fill_price slippage_amount
                    else float_sub fill_price slippage_amount))"

definition pending_order :: "draws \<Rightarrow> order_request \<Rightarrow> order_details" where
  "pending_order d rq =
     \<lparr>od_order_id = new_order_id d,
      od_instrument_token = rq_instrument_token rq,
      od_transaction_type = rq_transaction_type rq,
      od_quantity = rq_quantity rq,
      od_product = rq_product rq,
      od_validity = rq_validity rq,
      od_order_type = rq_order_type rq,
      od_price = rq_price rq,
      od_trigger_price = rq_trigger_price rq,
      od_disclosed_quantity = rq_disclosed_quantity rq,
      od_is_amo = rq_is_amo rq,
      od_tag = rq_tag rq,
      od_status = ''PENDING'',
      od_timestamp = placed_at d,
      od_exchange_order_id = None,
      od_filled_quantity = 0,
      od_filled_price = 0\<rparr>"

text \<open>Lines 203-217 and 225-239: the order marked FILLED and the trade appended.\<close>

definition filled_order :: "draws \<Rightarrow> real \<Rightarrow> order_details \<Rightarrow> order_details" where
  "filled_order d fill_price od =
     od\<lparr>od_status := ''FILLED'', od_filled_quantity := od_quantity od,
        od_filled_price := fill_price,
        od_exchange_order_id := Some (new_exchange_order_id d)\<rparr>"

definition fill_event_of :: "draws \<Rightarrow> real \<Rightarrow> real \<Rightarrow> order_details \<Rightarrow> FillEvent" where
  "fill_event_of d fill_price fee od =
     \<lparr>order_id = od_order_id od,
      instrument_token = od_instrument_token od,
      exchange_order_id = new_exchange_order_id d,
      transaction_type = od_transaction_type od,
      quantity = od_quantity od,
      price = fill_price,
      brokerage = fee,
      fill_timestamp = filled_at d\<rparr>"

text \<open>
  Lines 185-245: what happens to the pending order. The result is the order as it is
  returned and the broker's funds and trades after the call.
\<close>

definition settle_order ::
  "draws \<Rightarrow> order_request \<Rightarrow> order_details \<Rightarrow> SimulatedBroker \<Rightarrow> order_details \<times> SimulatedBroker" where
  "settle_order d rq od b =
     (if upper (rq_order_type rq) = ''MARKET'' \<and> random_draw d \<le> fill_chance b then
        (let fill_price = slipped_fill_price d rq b;
             fee = sim_calculate_brokerage;
             trade_value = fill_price * of_int (rq_quantity rq)
         in if upper (rq_transaction_type rq) = ''BUY'' then
              (let cost = trade_value + fee
               in if current_funds b \<ge> cost then
                    (filled_order d fill_price od,
                     b\<lparr>current_funds := current_funds b - cost,
                       trades := trades b @ [fill_event_of d fill_price fee od]\<rparr>)
                  else (od\<lparr>od_status := ''REJECTED''\<rparr>, b))
            else if upper (rq_transaction_type rq) = ''SELL'' then
              (let revenue = trade_value - fee
               in (filled_order d fill_price od,
                   b\<lparr>current_funds := current_funds b + revenue,
                     trades := trades b @ [fill_event_of d fill_price fee od]\<rparr>))
            else (od, b))
      else if upper (rq_order_type rq) = ''LIMIT'' then (od, b)
      else (od\<lparr>od_status := ''REJECTED''\<rparr>, b))"

text \<open>
  Lines 144-248: \<^verbatim>\<open>place_order\<close>. The dict stored in \<^verbatim>\<open>self.orders\<close> at line 181 is
  the object that the later lines mutate and return, so the stored order is the returned
  one.
\<close>

definition place_order ::
  "draws \<Rightarrow> order_request \<Rightarrow> SimulatedBroker \<Rightarrow> order_details \<times> SimulatedBroker" where
  "place_order d rq b =
     (let (od, b') = settle_order d rq (pending_order d rq) b
      in (od, b'\<lparr>orders := (orders b')(new_order_id d \<mapsto> od)\<rparr>))"

text \<open>
  Example values: the broker as \<^verbatim>\<open>__init__\<close> builds it with its default arguments, the
  queries of that broker (lines 292-325), a draw and a market order.
\<close>

definition broker0 :: SimulatedBroker where
  "broker0 = \<lparr>orders = Map.empty, trades = [], slippage_percent = 0, fill_chance = 1,
              initial_funds = 1000000, current_funds = 1000000\<rparr>"

definition sim_queries :: "SimulatedBroker \<Rightarrow> broker_queries" where
  "sim_queries b =
     \<lparr>calculate_margin = (\<lambda>i. Inr ((id_price i * of_int (id_quantity i)) * (1 / 10))),
      calculate_brokerage = (\<lambda>i. Inr sim_calculate_brokerage),
      get_funds_and_margin = Inr (current_funds b)\<rparr>"

definition failing_queries :: broker_queries where
  "failing_queries =
     \<lparr>calculate_margin = (\<lambda>i. Inr 1000),
      calculate_brokerage = (\<lambda>i. Inl (Exc (Exception ''timeout''))),
      get_funds_and_margin = Inr 5000\<rparr>"

definition cancelled_queries :: broker_queries where
  "cancelled_queries =
     \<lparr>calculate_margin = (\<lambda>i. Inl CancelledError),
      calculate_brokerage = (\<lambda>i. Inr 20),
      get_funds_and_margin = Inr 5000\<rparr>"

definition draw0 :: draws where
  "draw0 = \<lparr>new_order_id = ''order-1'', placed_at = 0, random_draw = 1 / 2,
            uniform_draw = 100, new_exchange_order_id = ''exch-1'', filled_at = 0\<rparr>"

definition market_order :: "string \<Rightarrow> int \<Rightarrow> real \<Rightarrow> order_request" where
  "market_order side qty px =
     \<lparr>rq_instrument_token = ''INFY'', rq_transaction_type = side, rq_quantity = qty,
      rq_product = ''MIS'', rq_validity = ''DAY'', rq_order_type = ''MARKET'', rq_price = px,
      rq_trigger_price = 0, rq_disclosed_quantity = 0, rq_is_amo = False, rq_tag = ''''\<rparr>"

section \<open>\<^verbatim>\<open>engine/enhanced_strategy_adapter.py\<close>: the rate limiter\<close>

text \<open>
  The names bound at module level in \<^verbatim>\<open>enhanced_strategy_adapter.py\<close>: the imports of
  lines 6-18 and the two classes the module defines. A function of the module that reads
  any other global name (and no builtin of that name exists) raises \<^verbatim>\<open>NameError\<close>.
\<close>

definition module_globals :: "string list" where
  "module_globals =
     [''asyncio'', ''logging'', ''Dict'', ''List'', ''Optional'', ''Any'', ''Union'',
      ''datetime'', ''json'', ''EventEngine'', ''MarketEvent'', ''SignalEvent'',
      ''OrderEvent'', ''FillEvent'', ''PortfolioManager'', ''TradeExecutor'',
      ''RiskManager'', ''get_logger'', ''BaseStrategy'', ''EnhancedBaseStrategy'',
      ''EnhancedStrategyAdapter'', ''PerformanceTracker'']"

definition global_name :: "string \<Rightarrow> exn + unit" where
  "global_name n = (if n \<in> set module_globals then Inr () else Inl (NameError n))"

text \<open>
  A reading of \<^verbatim>\<open>datetime.now()\<close> is a number of seconds. The bucket key
  \<^verbatim>\<open>strftime('%Y-%m-%d %H:%M')\<close> names the minute of the reading and, its fields being
  zero-padded, orders as the minutes do: the model takes the number of the minute as the
  key.
\<close>

definition minute_key :: "int \<Rightarrow> int" where
  "minute_key t = t div 60"

text \<open>
  The fields of the adapter that the rate limiter uses (lines 49-50):
  \<^verbatim>\<open>signal_rate_limiter\<close> maps a minute key to a dict from instrument to count.
\<close>

record EnhancedStrategyAdapter =
  max_signals_per_minute :: int
  signal_rate_limiter :: "int \<rightharpoonup> (string \<rightharpoonup> int)"

text \<open>
  Lines 269-278: \<^verbatim>\<open>_cleanup_rate_limiter\<close>, with its own clock reading. Line 272
  evaluates the global name \<^verbatim>\<open>timedelta\<close> before anything is removed.
\<close>

definition cleanup_rate_limiter ::
  "int \<Rightarrow> EnhancedStrategyAdapter \<Rightarrow> exn + EnhancedStrategyAdapter" where
  "cleanup_rate_limiter current_time a =
     (case global_name ''timedelta'' of
        Inl e \<Rightarrow> Inl e
      | Inr _ \<Rightarrow>
          (let cutoff_key = minute_key (current_time - 3600)
           in Inr (a\<lparr>signal_rate_limiter :=
                      (\<lambda>k. if k < cutoff_key then None else signal_rate_limiter a k)\<rparr>)))"

text \<open>
  Lines 246-267: \<^verbatim>\<open>_check_rate_limit\<close>. The result pairs what the call returns or
  raises with the adapter as the call leaves it: the dict is mutated before the return
  and before the cleanup, so those writes stay whatever the outcome.
\<close>

definition check_rate_limit ::
  "int \<Rightarrow> int \<Rightarrow> string \<Rightarrow> EnhancedStrategyAdapter \<Rightarrow>
     (exn + bool) \<times> EnhancedStrategyAdapter" where
  "check_rate_limit current_time cleanup_time token a =
     (let key = minute_key current_time;
          limiter = signal_rate_limiter a;
          bucket = (case limiter key of None \<Rightarrow> Map.empty | Some b \<Rightarrow> b);
          n = (case bucket token of None \<Rightarrow> 0 | Some c \<Rightarrow> c);
          a1 = a\<lparr>signal_rate_limiter := limiter(key \<mapsto> bucket(token \<mapsto> n))\<rparr>
      in if n \<ge> max_signals_per_minute a then (Inr False, a1)
         else
           (let a2 = a\<lparr>signal_rate_limiter := limiter(key \<mapsto> bucket(token \<mapsto> n + 1))\<rparr>
            in case cleanup_rate_limiter cleanup_time a2 of
                 Inl e \<Rightarrow> (Inl e, a2)
               | Inr a3 \<Rightarrow> (Inr True, a3)))"

text \<open>
  Lines 54-75: \<^verbatim>\<open>on_market_event\<close>, as far as the rate limiter decides it. The first
  component says whether \<^verbatim>\<open>strategy.handle_market_event\<close> is called: not when the check
  returns False (line 62), and not when the check raises, since the
  \<^verbatim>\<open>except Exception\<close> of line 74 takes over.
\<close>

definition on_market_event ::
  "int \<Rightarrow> int \<Rightarrow> string \<Rightarrow> EnhancedStrategyAdapter \<Rightarrow> bool \<times> EnhancedStrategyAdapter" where
  "on_market_event current_time cleanup_time token a =
     (case check_rate_limit current_time cleanup_time token a of
        (Inl e, a') \<Rightarrow> (False, a')
      | (Inr False, a') \<Rightarrow> (False, a')
      | (Inr True, a') \<Rightarrow> (True, a'))"

text \<open>The adapter as \<^verbatim>\<open>__init__\<close> builds it, and repeated checks within one minute.\<close>

definition adapter0 :: EnhancedStrategyAdapter where
  "adapter0 = \<lparr>max_signals_per_minute = 10, signal_rate_limiter = Map.empty\<rparr>"

fun repeat_check :: "nat \<Rightarrow> int \<Rightarrow> string \<Rightarrow> EnhancedStrategyAdapter \<Rightarrow> EnhancedStrategyAdapter" where
  "repeat_check 0 t token a = a"
| "repeat_check (Suc n) t token a = repeat_check n t token (snd (check_rate_limit t t token a))"

section \<open>\<^verbatim>\<open>engine/strategy_manager.py\<close>: StrategyManager\<close>

datatype StrategyStatus = INITIALIZING | RUNNING | PAUSED | STOPPED | ERROR | COMPLETED









definition delivered_to :: "string \<Rightarrow> (string \<times> 'ev \<times> bool) list \<Rightarrow> (string \<times> 'ev \<times> bool) list" where
  "delivered_to sid calls = filter (\<lambda>d. fst d = sid) calls"







section \<open>Properties of the portfolio ledger\<close>

lemma on_fill_event_cash: "current_cash (on_fill_event ev pm) = update_cash ev (current_cash pm)"
  by (simp add: on_fill_event_def record_equity_snapshot_def Let_def)

lemma on_fill_event_positions:
  "positions (on_fill_event ev pm) = update_positions ev (positions pm)"
  by (simp add: on_fill_event_def record_equity_snapshot_def Let_def)

lemma held_quantity_step:
  "held_quantity (on_fill_event ev pm) (instrument_token ev) =
     held_quantity pm (instrument_token ev) + signed_quantity ev"
  by (simp add: held_quantity_def on_fill_event_positions update_positions_def
      current_position_def fresh_position_def apply_buy_def apply_sell_def signed_quantity_def
      Let_def split: option.splits)

lemma no_zero_entry_step:
  "no_zero_entry ps \<Longrightarrow> no_zero_entry (update_positions ev ps)"
  by (auto simp: no_zero_entry_def update_positions_def Let_def split: if_splits)

lemma process_fills_append:
  "process_fills (xs @ ys) pm = process_fills ys (process_fills xs pm)"
  by (simp add: process_fills_def)

lemma process_fills_Cons:
  "process_fills (ev # fills) pm = process_fills fills (on_fill_event ev pm)"
  by (simp add: process_fills_def)

lemma process_fills_Nil: "process_fills [] pm = pm"
  by (simp add: process_fills_def)

lemma no_zero_entry_process_fills:
  "no_zero_entry (positions pm) \<Longrightarrow> no_zero_entry (positions (process_fills fills pm))"
  by (induction fills arbitrary: pm)
     (simp_all add: process_fills_Nil process_fills_Cons on_fill_event_positions no_zero_entry_step)

lemma held_quantity_process_fills:
  "\<forall>ev\<in>set fills. instrument_token ev = tok \<Longrightarrow>
     held_quantity (process_fills fills pm) tok = held_quantity pm tok + signed_sum fills"
proof (induction fills arbitrary: pm)
  case Nil
  then show ?case by (simp add: process_fills_Nil signed_sum_def)
next
  case (Cons ev fills)
  have tok: "instrument_token ev = tok" using Cons.prems by simp
  have "held_quantity (process_fills fills (on_fill_event ev pm)) tok =
          held_quantity (on_fill_event ev pm) tok + signed_sum fills"
    using Cons.IH Cons.prems by simp
  also have "held_quantity (on_fill_event ev pm) tok = held_quantity pm tok + signed_quantity ev"
    using held_quantity_step [of ev pm] tok by simp
  finally show ?case by (simp add: process_fills_Cons signed_sum_def)
qed

text \<open>
  Claim C1. For every fill processed by \<^verbatim>\<open>on_fill_event\<close> with quantity q, price p and
  brokerage b: a BUY leaves the cash at the cash before minus (q*p + b), a SELL at the cash
  before plus (q*p - b).
\<close>

theorem fill_cash_update:
  "(transaction_type ev = ''BUY'' \<longrightarrow>
      current_cash (on_fill_event ev pm) =
        current_cash pm - (of_int (quantity ev) * price ev + brokerage ev)) \<and>
   (transaction_type ev = ''SELL'' \<longrightarrow>
      current_cash (on_fill_event ev pm) =
        current_cash pm + (of_int (quantity ev) * price ev - brokerage ev))"
  by (simp add: on_fill_event_cash update_cash_def)

theorem fill_cash_update_witness:
  "current_cash (on_fill_event (fill ''INFY'' ''BUY'' 100 100 20) ledger0) = 89980 \<and>
  current_cash (on_fill_event (fill ''INFY'' ''SELL'' 100 110 20) (on_fill_event (fill ''INFY'' ''BUY'' 100 100 20) ledger0)) = 100960"
  using fill_cash_update [of "fill ''INFY'' ''BUY'' 100 100 20" ledger0]
    fill_cash_update [of "fill ''INFY'' ''SELL'' 100 110 20" "on_fill_event (fill ''INFY'' ''BUY'' 100 100 20) ledger0"]
  by (simp add: fill_def ledger0_def)

text \<open>
  Claim C2. Start from a ledger with no position and apply BUY and SELL fills on one
  instrument. Split the sequence at any point where the instrument has no entry (the
  start, or a moment the position reached zero): the quantity held after the whole
  sequence is the signed sum of the fills after the split. When that sum is zero the
  entry is gone, otherwise the entry stores the sum; no entry of the map has quantity
  zero.
\<close>

theorem position_quantity_signed_sum:
  assumes empty: "positions pm0 = Map.empty"
    and fills: "\<forall>ev\<in>set (pre @ post). instrument_token ev = tok \<and>
                 (transaction_type ev = ''BUY'' \<or> transaction_type ev = ''SELL'')"
    and zero: "positions (process_fills pre pm0) tok = None"
  shows "held_quantity (process_fills (pre @ post) pm0) tok = signed_sum post \<and>
         (signed_sum post = 0 \<longrightarrow> positions (process_fills (pre @ post) pm0) tok = None) \<and>
         (signed_sum post \<noteq> 0 \<longrightarrow>
            (\<exists>p. positions (process_fills (pre @ post) pm0) tok = Some p \<and>
                 pos_quantity p = signed_sum post)) \<and>
         no_zero_entry (positions (process_fills (pre @ post) pm0))"
proof -
  let ?mid = "process_fills pre pm0"
  let ?fin = "process_fills (pre @ post) pm0"
  have fin: "?fin = process_fills post ?mid"
    by (rule process_fills_append)
  have "\<forall>ev\<in>set post. instrument_token ev = tok"
    using fills by simp
  then have "held_quantity ?fin tok = held_quantity ?mid tok + signed_sum post"
    unfolding fin by (rule held_quantity_process_fills)
  moreover have "held_quantity ?mid tok = 0"
    using zero by (simp add: held_quantity_def)
  ultimately have held: "held_quantity ?fin tok = signed_sum post"
    by simp
  have "no_zero_entry (positions pm0)"
    using empty by (simp add: no_zero_entry_def)
  then have inv: "no_zero_entry (positions ?fin)"
    by (rule no_zero_entry_process_fills)
  have gone: "positions ?fin tok = None" if "signed_sum post = 0"
  proof (cases "positions ?fin tok")
    case None
    then show ?thesis .
  next
    case (Some p)
    then have "pos_quantity p \<noteq> 0"
      using inv by (simp add: no_zero_entry_def)
    moreover have "pos_quantity p = 0"
      using held Some that by (simp add: held_quantity_def)
    ultimately show ?thesis by simp
  qed
  have kept: "\<exists>p. positions ?fin tok = Some p \<and> pos_quantity p = signed_sum post"
    if "signed_sum post \<noteq> 0"
    using held that by (cases "positions ?fin tok") (simp_all add: held_quantity_def)
  from held gone kept inv show ?thesis
    by blast
qed

theorem position_quantity_signed_sum_witness:
  "held_quantity
     (process_fills
        ([fill ''INFY'' ''BUY'' 100 100 20, fill ''INFY'' ''SELL'' 100 110 20] @
         [fill ''INFY'' ''BUY'' 30 105 20, fill ''INFY'' ''SELL'' 10 120 20])
        ledger0) ''INFY'' = 20 \<and>
   positions
     (process_fills ([fill ''INFY'' ''BUY'' 100 100 20, fill ''INFY'' ''SELL'' 100 110 20] @ [])
        ledger0) ''INFY'' = None"
proof -
  let ?pre = "[fill ''INFY'' ''BUY'' 100 100 20, fill ''INFY'' ''SELL'' 100 110 20]"
  let ?post = "[fill ''INFY'' ''BUY'' 30 105 20, fill ''INFY'' ''SELL'' 10 120 20]"
  have e: "positions ledger0 = Map.empty"
    by (simp add: ledger0_def)
  have z: "positions (process_fills ?pre ledger0) ''INFY'' = None"
    by (simp add: process_fills_def on_fill_event_positions update_positions_def
        current_position_def fresh_position_def apply_buy_def apply_sell_def fill_def
        ledger0_def Let_def)
  have f: "\<forall>ev\<in>set (?pre @ ?post). instrument_token ev = ''INFY'' \<and>
             (transaction_type ev = ''BUY'' \<or> transaction_type ev = ''SELL'')"
    by (simp add: fill_def)
  have f0: "\<forall>ev\<in>set (?pre @ []). instrument_token ev = ''INFY'' \<and>
             (transaction_type ev = ''BUY'' \<or> transaction_type ev = ''SELL'')"
    by (simp add: fill_def)
  have s: "signed_sum ?post = 20"
    by (simp add: signed_sum_def signed_quantity_def fill_def)
  have s0: "signed_sum [] = 0"
    by (simp add: signed_sum_def)
  from position_quantity_signed_sum [OF e f z] position_quantity_signed_sum [OF e f0 z] s s0
  show ?thesis by simp
qed

text \<open>
  Claim C3. On an instrument with no position, two BUY fills (q1, p1) and (q2, p2) with
  q1 > 0 and q2 > 0 leave a position of q1 + q2 whose average price is
  (q1*p1 + q2*p2)/(q1 + q2). In general a BUY fill of q at p on a position of oldQty at
  oldAvg (0 at 0 when the instrument has no entry) leaves, when oldQty + q is not zero, a
  position of oldQty + q at (oldQty*oldAvg + q*p)/(oldQty + q).
\<close>

theorem buy_average_price:
  "(positions pm tok = None \<and> instrument_token ev1 = tok \<and> instrument_token ev2 = tok \<and>
    transaction_type ev1 = ''BUY'' \<and> transaction_type ev2 = ''BUY'' \<and>
    0 < quantity ev1 \<and> 0 < quantity ev2 \<longrightarrow>
      (\<exists>p. positions (on_fill_event ev2 (on_fill_event ev1 pm)) tok = Some p \<and>
           pos_quantity p = quantity ev1 + quantity ev2 \<and>
           avg_price p =
             (of_int (quantity ev1) * price ev1 + of_int (quantity ev2) * price ev2) /
             of_int (quantity ev1 + quantity ev2))) \<and>
   (transaction_type ev = ''BUY'' \<and>
    pos_quantity (current_position ev (positions pm)) + quantity ev \<noteq> 0 \<longrightarrow>
      (\<exists>p. positions (on_fill_event ev pm) (instrument_token ev) = Some p \<and>
           pos_quantity p = pos_quantity (current_position ev (positions pm)) + quantity ev \<and>
           avg_price p =
             (of_int (pos_quantity (current_position ev (positions pm))) *
                avg_price (current_position ev (positions pm)) +
              of_int (quantity ev) * price ev) /
             of_int (pos_quantity (current_position ev (positions pm)) + quantity ev)))"
  by (simp add: on_fill_event_positions update_positions_def current_position_def
      fresh_position_def apply_buy_def Let_def)

theorem buy_average_price_witness:
  "(\<exists>p. positions (on_fill_event (fill ''INFY'' ''BUY'' 50 130 20)
            (on_fill_event (fill ''INFY'' ''BUY'' 100 100 20) ledger0)) ''INFY'' = Some p \<and>
        pos_quantity p = 150 \<and> avg_price p = 110)"
  using buy_average_price [of ledger0 "''INFY''" "fill ''INFY'' ''BUY'' 100 100 20"
      "fill ''INFY'' ''BUY'' 50 130 20" "fill ''INFY'' ''BUY'' 50 130 20"]
  by (simp add: fill_def ledger0_def)

text \<open>
  Claim C10. A fill whose side is neither BUY nor SELL leaves the cash and the positions
  map as they were, and appends one trade record and one equity snapshot. The ledger is
  one that keeps no zero-quantity entry, which \<open>no_zero_entry_process_fills\<close> shows of
  every ledger that fills have built from an empty map.
\<close>

theorem unknown_side_frame:
  assumes "transaction_type ev \<noteq> ''BUY''" and "transaction_type ev \<noteq> ''SELL''"
    and "no_zero_entry (positions pm)"
  shows "current_cash (on_fill_event ev pm) = current_cash pm \<and>
         positions (on_fill_event ev pm) = positions pm \<and>
         portfolio_trades (on_fill_event ev pm) =
           portfolio_trades pm @ [make_trade_record ev (current_cash pm)] \<and>
         equity_curve (on_fill_event ev pm) =
           equity_curve pm @
             [\<lparr>es_timestamp = fill_timestamp ev, es_cash = current_cash pm,
               es_positions = map_option pos_quantity \<circ> positions pm,
               total_value = current_cash pm\<rparr>]"
proof -
  have cash: "update_cash ev (current_cash pm) = current_cash pm"
    using assms(1,2) by (simp add: update_cash_def)
  have pos: "update_positions ev (positions pm) = positions pm"
  proof (cases "positions pm (instrument_token ev)")
    case None
    then show ?thesis
      using assms(1,2)
      by (simp add: update_positions_def current_position_def fresh_position_def fun_upd_idem)
  next
    case (Some p)
    then have "pos_quantity p \<noteq> 0"
      using assms(3) by (simp add: no_zero_entry_def)
    then show ?thesis
      using assms(1,2) Some
      by (simp add: update_positions_def current_position_def fun_upd_idem)
  qed
  show ?thesis
    by (simp add: on_fill_event_def record_equity_snapshot_def Let_def cash pos)
qed


theorem unknown_side_frame_witness:
  "current_cash (on_fill_event (fill ''TCS'' ''HOLD'' 5 100 20)
     (on_fill_event (fill ''INFY'' ''BUY'' 100 100 20) ledger0)) = 89980 \<and>
   positions (on_fill_event (fill ''TCS'' ''HOLD'' 5 100 20)
     (on_fill_event (fill ''INFY'' ''BUY'' 100 100 20) ledger0)) ''TCS'' = None \<and>
   length (portfolio_trades (on_fill_event (fill ''TCS'' ''HOLD'' 5 100 20)
     (on_fill_event (fill ''INFY'' ''BUY'' 100 100 20) ledger0))) = 2 \<and>
   length (equity_curve (on_fill_event (fill ''TCS'' ''HOLD'' 5 100 20)
     (on_fill_event (fill ''INFY'' ''BUY'' 100 100 20) ledger0))) = 2"
proof -
  let ?ev = "fill ''TCS'' ''HOLD'' 5 100 20"
  let ?pm = "on_fill_event (fill ''INFY'' ''BUY'' 100 100 20) ledger0"
  have a: "transaction_type ?ev \<noteq> ''BUY''" and b: "transaction_type ?ev \<noteq> ''SELL''"
    by (simp_all add: fill_def)
  have "no_zero_entry (positions ledger0)"
    by (simp add: no_zero_entry_def ledger0_def)
  then have c: "no_zero_entry (positions ?pm)"
    by (simp add: on_fill_event_positions no_zero_entry_step)
  have d: "current_cash ?pm = 89980" "positions ?pm ''TCS'' = None"
    "length (portfolio_trades ?pm) = 1" "length (equity_curve ?pm) = 1"
    by (simp_all add: on_fill_event_def record_equity_snapshot_def update_cash_def
        update_positions_def current_position_def fresh_position_def apply_buy_def
        fill_def ledger0_def Let_def)
  from unknown_side_frame [OF a b c] d show ?thesis
    by simp
qed

section \<open>Properties of the risk manager\<close>

lemma lower_entry: "lower ''entry'' = ''entry''"
  by code_simp

lemma lower_exit: "lower ''exit'' = ''exit''"
  by code_simp

lemma upper_MARKET: "upper ''MARKET'' = ''MARKET''"
  by code_simp

lemma upper_BUY: "upper ''BUY'' = ''BUY''"
  by code_simp

lemma upper_SELL: "upper ''SELL'' = ''SELL''"
  by code_simp

text \<open>
  Claim C4. When the three broker queries succeed with margin m, brokerage k and
  available funds f, \<^verbatim>\<open>validate_order\<close> returns the flag f >= m + k for the trade type
  'entry' and the flag f >= k for the trade type 'exit' (with m and k beside it), so funds
  equal to the requirement pass.
\<close>

theorem validate_order_funds_check:
  assumes "idict = \<lparr>exchange_token = token, id_quantity = qty, id_product = product,
                     id_transaction_type = side, id_price = px\<rparr>"
    and "calculate_margin broker idict = Inr m"
    and "calculate_brokerage broker idict = Inr k"
    and "get_funds_and_margin broker = Inr f"
  shows "validate_order broker token qty product side ''entry'' px = Inr (f \<ge> m + k, m, k) \<and>
         validate_order broker token qty product side ''exit'' px = Inr (f \<ge> k, m, k)"
  using assms
  by (simp add: validate_order_def validate_order_body_def lower_entry lower_exit)

theorem validate_order_funds_check_witness:
  "validate_order (sim_queries (broker0\<lparr>current_funds := 1020\<rparr>))
     ''INFY'' 100 ''MIS'' ''BUY'' ''entry'' 100 = Inr (True, 1000, 20) \<and>
   validate_order (sim_queries (broker0\<lparr>current_funds := 1019.99\<rparr>))
     ''INFY'' 100 ''MIS'' ''BUY'' ''entry'' 100 = Inr (False, 1000, 20) \<and>
   validate_order (sim_queries (broker0\<lparr>current_funds := 1019.99\<rparr>))
     ''INFY'' 100 ''MIS'' ''BUY'' ''exit'' 100 = Inr (True, 1000, 20)"
  using validate_order_funds_check
    [of "\<lparr>exchange_token = ''INFY'', id_quantity = 100, id_product = ''MIS'',
          id_transaction_type = ''BUY'', id_price = 100\<rparr>"
        "''INFY''" 100 "''MIS''" "''BUY''" 100
        "sim_queries (broker0\<lparr>current_funds := 1020\<rparr>)" 1000 20 1020]
    validate_order_funds_check
    [of "\<lparr>exchange_token = ''INFY'', id_quantity = 100, id_product = ''MIS'',
          id_transaction_type = ''BUY'', id_price = 100\<rparr>"
        "''INFY''" 100 "''MIS''" "''BUY''" 100
        "sim_queries (broker0\<lparr>current_funds := 1019.99\<rparr>)" 1000 20 "1019.99"]
  by (simp add: sim_queries_def broker0_def sim_calculate_brokerage_def)

text \<open>
  Claim C9, as amended. When the first broker query that raises (in the order margin,
  brokerage, funds) raises an exception derived from \<^verbatim>\<open>Exception\<close>, \<^verbatim>\<open>validate_order\<close>
  returns \<^verbatim>\<open>(False, 0.0, 0.0)\<close> and no exception leaves the call. When it raises
  anything else (\<^verbatim>\<open>asyncio.CancelledError\<close>, \<^verbatim>\<open>KeyboardInterrupt\<close>, \<^verbatim>\<open>SystemExit\<close>,
  \<^verbatim>\<open>GeneratorExit\<close>), that leaves the call: line 75 catches \<^verbatim>\<open>Exception\<close> only. The
  claim as written promises the result for any exception; a query cancelled while it is
  awaited is the case below.
\<close>

theorem validate_order_query_failure:
  assumes "idict = \<lparr>exchange_token = token, id_quantity = qty, id_product = product,
                     id_transaction_type = side, id_price = px\<rparr>"
    and "calculate_margin broker idict = Inl x \<or>
         (\<exists>m. calculate_margin broker idict = Inr m \<and>
              calculate_brokerage broker idict = Inl x) \<or>
         (\<exists>m k. calculate_margin broker idict = Inr m \<and>
                calculate_brokerage broker idict = Inr k \<and>
                get_funds_and_margin broker = Inl x)"
  shows "validate_order broker token qty product side trade_type px =
           (case x of Exc e \<Rightarrow> Inr (False, 0, 0) | _ \<Rightarrow> Inl x)"
proof -
  have "validate_order_body broker idict trade_type = Inl x"
    using assms(2) by (auto simp: validate_order_body_def)
  then show ?thesis
    using assms(1) by (cases x) (simp_all add: validate_order_def)
qed

theorem validate_order_query_failure_counterexample:
  "calculate_margin cancelled_queries
     \<lparr>exchange_token = ''INFY'', id_quantity = 100, id_product = ''MIS'',
      id_transaction_type = ''BUY'', id_price = 100\<rparr> = Inl CancelledError \<and>
   validate_order cancelled_queries ''INFY'' 100 ''MIS'' ''BUY'' ''entry'' 100 =
     Inl CancelledError \<and>
   validate_order cancelled_queries ''INFY'' 100 ''MIS'' ''BUY'' ''entry'' 100 \<noteq>
     Inr (False, 0, 0)"
  by (simp add: validate_order_def validate_order_body_def cancelled_queries_def)

theorem validate_order_query_failure_witness:
  "validate_order failing_queries ''INFY'' 100 ''MIS'' ''BUY'' ''entry'' 100 = Inr (False, 0, 0)"
  using validate_order_query_failure
    [of "\<lparr>exchange_token = ''INFY'', id_quantity = 100, id_product = ''MIS'',
          id_transaction_type = ''BUY'', id_price = 100\<rparr>"
        "''INFY''" 100 "''MIS''" "''BUY''" 100 failing_queries
        "Exc (Exception ''timeout'')" "''entry''"]
  by (simp add: failing_queries_def)

section \<open>Properties of the simulated broker\<close>

lemma place_order_fst: "fst (place_order d rq b) = fst (settle_order d rq (pending_order d rq) b)"
  by (simp add: place_order_def split_beta)





text \<open>
  The float model on the values that Python gives. The double nearest to 0.01 and the
  double nearest to 5.55 are the fractions that \<^verbatim>\<open>float.as_integer_ratio\<close> shows. A BUY
  at 5.5 with 1 percent of slippage: the exact sum 5.555 is a tie between 5.55 and 5.56,
  the float sum lies below it and Python rounds it to 5.55. Likewise a SELL at 0.5 with
  1 percent gives 0.49, and a BUY at 35 with 0.1 percent gives 35.03.
\<close>

lemma fl_one_hundredth: "fl (1 / 100) = 5764607523034235 / 576460752303423488"
  by code_simp

lemma fl_five_fifty_five: "fl (555 / 100) = 6248744482976563 / 1125899906842624"
  by code_simp

lemma slipped_fill_price_examples:
  "slipped_fill_price draw0 (market_order ''BUY'' 1 (11 / 2)) (broker0\<lparr>slippage_percent := 1\<rparr>) =
     fl (555 / 100)"
  "slipped_fill_price draw0 (market_order ''SELL'' 1 (1 / 2)) (broker0\<lparr>slippage_percent := 1\<rparr>) =
     fl (49 / 100)"
  "slipped_fill_price draw0 (market_order ''BUY'' 1 35)
     (broker0\<lparr>slippage_percent := fl (1 / 10)\<rparr>) = fl (3503 / 100)"
  "fl (555 / 100) \<noteq> fl (556 / 100)"
  by code_simp+

text \<open>
  Claim C8, as amended. A market order that passes the fill-probability draw and is
  filled has the fill price round(base + base * (slippage_percent/100), 2) for BUY and
  round(base - base * (slippage_percent/100), 2) for SELL, computed as Python computes it
  on floats, where base is the requested price when that is positive and the fixed price
  100 otherwise. The claim as written takes the requested price as base for every price;
  at the requested price 0 the order below is filled at 100.
\<close>

theorem market_fill_price:
  assumes "upper (rq_order_type rq) = ''MARKET''"
    and "random_draw d \<le> fill_chance b"
    and "od_status (fst (place_order d rq b)) = ''FILLED''"
  shows "(upper (rq_transaction_type rq) = ''BUY'' \<longrightarrow>
            od_filled_price (fst (place_order d rq b)) =
              py_round2
                (float_add (if rq_price rq > 0 then rq_price rq else 100)
                   (float_mul (if rq_price rq > 0 then rq_price rq else 100)
                      (float_div (slippage_percent b) 100)))) \<and>
         (upper (rq_transaction_type rq) = ''SELL'' \<longrightarrow>
            od_filled_price (fst (place_order d rq b)) =
              py_round2
                (float_sub (if rq_price rq > 0 then rq_price rq else 100)
                   (float_mul (if rq_price rq > 0 then rq_price rq else 100)
                      (float_div (slippage_percent b) 100))))"
  using assms
  by (auto simp: place_order_fst settle_order_def slipped_fill_price_def base_fill_price_def
      filled_order_def pending_order_def Let_def split: if_splits)

theorem market_fill_price_counterexample:
  "od_status (fst (place_order draw0 (market_order ''BUY'' 1 0) broker0)) = ''FILLED'' \<and>
   od_filled_price (fst (place_order draw0 (market_order ''BUY'' 1 0) broker0)) = 100 \<and>
   od_filled_price (fst (place_order draw0 (market_order ''BUY'' 1 0) broker0)) \<noteq>
     py_round2
       (float_add (rq_price (market_order ''BUY'' 1 0))
          (float_mul (rq_price (market_order ''BUY'' 1 0))
             (float_div (slippage_percent broker0) 100)))"
  by code_simp

theorem market_fill_price_witness:
  "od_filled_price (fst (place_order draw0 (market_order ''BUY'' 1 (11 / 2))
       (broker0\<lparr>slippage_percent := 1\<rparr>))) = fl (555 / 100)"
proof -
  let ?b = "broker0\<lparr>slippage_percent := 1\<rparr>"
  let ?rq = "market_order ''BUY'' 1 (11 / 2)"
  have a: "upper (rq_order_type ?rq) = ''MARKET''"
    by (simp add: market_order_def upper_MARKET)
  have b: "random_draw draw0 \<le> fill_chance ?b"
    by (simp add: draw0_def broker0_def)
  have c: "od_status (fst (place_order draw0 ?rq ?b)) = ''FILLED''"
    by code_simp
  have s: "upper (rq_transaction_type ?rq) = ''BUY''"
    by (simp add: market_order_def upper_BUY)
  have r: "py_round2 (float_add (11 / 2) (float_mul (11 / 2) (float_div 1 100))) = fl (555 / 100)"
    by code_simp
  from market_fill_price [OF a b c] s r show ?thesis
    by (simp add: market_order_def broker0_def)
qed

section \<open>Properties of the rate limiter\<close>

lemma timedelta_unbound: "global_name ''timedelta'' = Inl (NameError ''timedelta'')"
  by (simp add: global_name_def module_globals_def)

lemma cleanup_rate_limiter_raises:
  "cleanup_rate_limiter t a = Inl (NameError ''timedelta'')"
  by (simp add: cleanup_rate_limiter_def timedelta_unbound)

lemma check_rate_limit_never_accepts:
  "fst (check_rate_limit t t' token a) = Inr False \<or>
   fst (check_rate_limit t t' token a) = Inl (NameError ''timedelta'')"
  by (simp add: check_rate_limit_def cleanup_rate_limiter_raises Let_def)

lemma on_market_event_never_delivers: "fst (on_market_event t t' token a) = False"
  using check_rate_limit_never_accepts [of t t' token a]
  by (auto simp: on_market_event_def split: prod.splits sum.splits bool.splits)

text \<open>
  Claim C6 says that the first ten signals of a minute for an instrument are accepted,
  the eleventh rejected, and a signal in the next minute accepted again. The module
  never binds the name \<^verbatim>\<open>timedelta\<close>, so a check that is not rejected ends in
  \<^verbatim>\<open>NameError\<close> after it has counted the signal: on a new adapter the first check for
  instrument X raises, and \<^verbatim>\<open>on_market_event\<close> does not reach the strategy's handler.
\<close>

theorem first_signal_raises:
  "fst (check_rate_limit 0 0 ''X'' adapter0) = Inl (NameError ''timedelta'') \<and>
   fst (on_market_event 0 0 ''X'' adapter0) = False"
  by (simp add: on_market_event_def check_rate_limit_def cleanup_rate_limiter_raises adapter0_def Let_def)

text \<open>
  The tenth check of the minute raises as the first does, the eleventh returns False, and
  a check in the next minute raises again.
\<close>

lemma tenth_signal_raises:
  "fst (check_rate_limit 0 0 ''X'' (repeat_check 9 0 ''X'' adapter0)) =
     Inl (NameError ''timedelta'')"
  by (simp add: eval_nat_numeral check_rate_limit_def cleanup_rate_limiter_raises
      adapter0_def Let_def minute_key_def)

lemma eleventh_signal_rejected:
  "fst (check_rate_limit 0 0 ''X'' (repeat_check 10 0 ''X'' adapter0)) = Inr False"
  by (simp add: eval_nat_numeral check_rate_limit_def cleanup_rate_limiter_raises
      adapter0_def Let_def minute_key_def)

lemma next_minute_signal_raises:
  "fst (check_rate_limit 60 60 ''X'' (repeat_check 10 0 ''X'' adapter0)) =
     Inl (NameError ''timedelta'')"
  by (simp add: eval_nat_numeral check_rate_limit_def cleanup_rate_limiter_raises
      adapter0_def Let_def minute_key_def)

section \<open>Properties of the strategy manager\<close>






lemma delivered_to_append:
  "delivered_to s (xs @ ys) = delivered_to s xs @ delivered_to s ys"
  by (simp add: delivered_to_def)




















end
